theory Spec2Isabelle
  imports Main "HOL-Library.AList"
begin

section \<open>Types and values as reflection sees them\<close>

text \<open>
  The container works on \<^verbatim>\<open>reflect.Type\<close> and on values boxed in \<^verbatim>\<open>any\<close>.
  A type descriptor is compared with \<^verbatim>\<open>==\<close> in the source; the model compares
  the descriptors structurally. A struct type carries its fields (name, exported, type) in
  declaration order; \<open>TBasic\<close> stands for a type of any kind other than pointer, struct,
  interface and func, identified by its name.
\<close>

datatype kind = Interface | Ptr | Struct | Func | Other

datatype ty =
    TBasic string
  | TPtr ty
  | TStruct string "(string \<times> bool \<times> ty) list"
  | TIface string
  | TFunc "ty list" "ty list"

fun Kind :: "ty \<Rightarrow> kind" where
  "Kind (TBasic n) = Other"
| "Kind (TPtr t) = Ptr"
| "Kind (TStruct n fs) = Struct"
| "Kind (TIface n) = Interface"
| "Kind (TFunc ins outs) = Func"

text \<open>\<^verbatim>\<open>Type.Elem()\<close> of a pointer type; it panics on the other kinds modelled here.\<close>

fun Elem :: "ty \<Rightarrow> ty option" where
  "Elem (TPtr t) = Some t"
| "Elem t = None"

text \<open>
  A value boxed in \<^verbatim>\<open>any\<close>: the nil interface, a value of a basic type (its content
  encoded as a number, \<open>0\<close> the zero value), a pointer with its element type (nil, or the
  address of a slot of the heap), or a struct with its field values.
\<close>

datatype gval =
    Nil
  | Basic ty nat
  | Pointer ty "nat option"
  | StructV ty "gval list"

text \<open>\<^verbatim>\<open>reflect.TypeOf\<close>: the dynamic type, \<open>None\<close> for the nil interface.\<close>

fun TypeOf :: "gval \<Rightarrow> ty option" where
  "TypeOf Nil = None"
| "TypeOf (Basic t n) = Some t"
| "TypeOf (Pointer t a) = Some (TPtr t)"
| "TypeOf (StructV t vs) = Some t"

section \<open>Handles, errors, entries and the state\<close>

text \<open>
  The registry is a \<^verbatim>\<open>map[any]*entry\<close>. Its keys are pointers: a \<^verbatim>\<open>*Token[T]\<close>
  (with the type parameter and the address, \<open>None\<close> for a nil pointer) or the
  \<^verbatim>\<open>*tokenKey\<close> that \<^verbatim>\<open>Provide\<close> allocates. Two keys are equal when they have the
  same dynamic type and the same address. \<open>NilHandle\<close> is the nil interface.
\<close>

datatype handle =
    NilHandle
  | TokenPtr ty "nat option"
  | TokenKeyPtr nat

text \<open>Every panic of the source is an error value.\<close>

datatype error =
    ProvideNil
  | GetNilToken
  | DependencyNotFound handle
  | MultipleCandidates ty nat
  | MultipleInRegistry ty
  | InjectTarget
  | InjectUnresolved string ty string
  | FactoryNotFunc
  | FactoryArity
  | NewScopedNil
  | TokenNilInterface
  | RuntimePanic
  | TypeAssertion
  | UserPanic nat

datatype Lifecycle = Singleton | Prototype

text \<open>
  The memory a factory can touch: the heap of slots that pointers point to, its allocation
  counter, and an environment \<open>'w\<close> for whatever else the closure captured.
  A factory is a function of that memory; it returns a value or panics. Factories that call
  back into the container are outside this model.
\<close>

record 'w memory =
  slots :: "nat \<Rightarrow> gval"
  nextSlot :: nat
  world :: 'w

type_synonym 'w factory = "'w memory \<Rightarrow> (error + gval) \<times> 'w memory"

text \<open>
  \<^verbatim>\<open>type entry struct { value any; factory func() any; depType reflect.Type;
  lifecycle Lifecycle; once sync.Once; mu sync.Mutex }\<close>. The field \<open>once\<close> is the done
  flag of \<^verbatim>\<open>sync.Once\<close>.
\<close>

record 'w entry =
  stored :: gval
  factory :: "'w factory option"
  depType :: "ty option"
  lifecycle :: Lifecycle
  once :: bool

text \<open>
  Entries and tokens live on the heap and are shared by address; both heaps grow by a
  counter, so a new object never has the address of an old one.
\<close>

record 'w state =
  entries :: "nat \<Rightarrow> 'w entry"
  nextEntry :: nat
  tokens :: "nat \<Rightarrow> string"
  nextToken :: nat
  mem :: "'w memory"

section \<open>entry.resolve\<close>

text \<open>
  \<^verbatim>\<open>
  func (e *entry) resolve() any {
      if e.factory == nil { return e.value }
      if e.lifecycle == Prototype { return e.factory() }
      e.once.Do(func() { e.value = e.factory() })
      return e.value
  }
  \<close>
  \<^verbatim>\<open>Once.Do\<close> sets its done flag also when the function panics, and the panic
  propagates to the caller.
\<close>

definition resolve :: "'w state \<Rightarrow> nat \<Rightarrow> (error + gval) \<times> 'w state" where
  "resolve s r =
     (let e = entries s r in
      case factory e of
        None \<Rightarrow> (Inr (stored e), s)
      | Some f \<Rightarrow>
          if lifecycle e = Prototype then
            (case f (mem s) of (res, m') \<Rightarrow> (res, s\<lparr>mem := m'\<rparr>))
          else if once e then (Inr (stored e), s)
          else
            (case f (mem s) of
               (Inl err, m') \<Rightarrow>
                 (Inl err, s\<lparr>entries := (entries s)(r := e\<lparr>once := True\<rparr>), mem := m'\<rparr>)
             | (Inr v, m') \<Rightarrow>
                 (Inr v, s\<lparr>entries := (entries s)(r := e\<lparr>stored := v, once := True\<rparr>),
                            mem := m'\<rparr>)))"

text \<open>\<open>n\<close> calls of \<^verbatim>\<open>resolve\<close> on the same entry, one after the other.\<close>

fun resolveN :: "nat \<Rightarrow> 'w state \<Rightarrow> nat \<Rightarrow> (error + gval) list \<times> 'w state" where
  "resolveN 0 s r = ([], s)"
| "resolveN (Suc n) s r =
     (case resolve s r of (x, s') \<Rightarrow>
        (case resolveN n s' r of (xs, s'') \<Rightarrow> (x # xs, s'')))"

text \<open>The results of \<open>n\<close> successive calls of a factory, each on the memory the last left.\<close>

fun calls :: "nat \<Rightarrow> 'w factory \<Rightarrow> 'w memory \<Rightarrow> (error + gval) list \<times> 'w memory" where
  "calls 0 f m = ([], m)"
| "calls (Suc n) f m =
     (case f m of (x, m') \<Rightarrow> (case calls n f m' of (xs, m'') \<Rightarrow> (x # xs, m'')))"

section \<open>What reflection knows about types\<close>

text \<open>
  The zero value of a type (\<^verbatim>\<open>var zero T\<close>). A value of interface type that holds
  nothing is the nil interface, so \<^verbatim>\<open>reflect.TypeOf(zero)\<close> is nil exactly for an
  interface type.
\<close>

fun zero :: "ty \<Rightarrow> gval" where
  "zero (TBasic n) = Basic (TBasic n) 0"
| "zero (TPtr t) = Pointer t None"
| "zero (TStruct n fs) = StructV (TStruct n fs) (map (\<lambda>f. zero (snd (snd f))) fs)"
| "zero (TIface n) = Nil"
| "zero (TFunc ins outs) = Basic (TFunc ins outs) 0"

text \<open>
  The method sets and the underlying types of the program's types are not part of the
  repository. What \<^verbatim>\<open>reflect\<close> derives from them is a parameter \<open>impl\<close> of every
  function that asks: \<open>Implements impl V T\<close> for \<^verbatim>\<open>V.Implements(T)\<close> with an interface type
  \<open>T\<close>, and \<open>IdenticalUnderlying impl T V\<close> for two types, not both named, whose underlying
  types are identical (or the channel types Go treats alike). The rest is
  \<^verbatim>\<open>reflect\<close>'s own code:
  \<^verbatim>\<open>
  func directlyAssignable(T, V *abi.Type) bool {
      if T == V { return true }
      if T.HasName() && V.HasName() || T.Kind() != V.Kind() { return false }
      if T.Kind() == abi.Chan && specialChannelAssignability(T, V) { return true }
      return haveIdenticalUnderlyingType(T, V, true)
  }
  func (t *rtype) AssignableTo(u Type) bool {
      return directlyAssignable(uu, t.common()) || implements(uu, t.common())
  }
  \<close>
  where \<^verbatim>\<open>implements(T, V)\<close> is false when \<open>T\<close> is not an interface type.
\<close>

record reflection =
  Implements :: "ty \<Rightarrow> ty \<Rightarrow> bool"
  IdenticalUnderlying :: "ty \<Rightarrow> ty \<Rightarrow> bool"

definition directlyAssignable :: "reflection \<Rightarrow> ty \<Rightarrow> ty \<Rightarrow> bool" where
  "directlyAssignable impl T V = (T = V \<or> (Kind T = Kind V \<and> IdenticalUnderlying impl T V))"

definition AssignableTo :: "reflection \<Rightarrow> ty \<Rightarrow> ty \<Rightarrow> bool" where
  "AssignableTo impl V T =
     (directlyAssignable impl T V \<or> (Kind T = Interface \<and> Implements impl V T))"

text \<open>The names reflection gives a type: \<^verbatim>\<open>PkgPath()\<close>, \<^verbatim>\<open>Name()\<close>, \<^verbatim>\<open>String()\<close>.\<close>

record typeNames =
  tyPkgPath :: "ty \<Rightarrow> string"
  tyName :: "ty \<Rightarrow> string"
  tyString :: "ty \<Rightarrow> string"

text \<open>
  A \<^verbatim>\<open>reflect.Value\<close>: the value and, when it is addressable, where it lives.
  \<^verbatim>\<open>reflect.ValueOf\<close> copies its argument out of the interface, so its result is never
  addressable.
\<close>

record rvalue =
  rv :: gval
  addr :: "nat option"

definition ValueOf :: "gval \<Rightarrow> rvalue" where
  "ValueOf v = \<lparr>rv = v, addr = None\<rparr>"

definition CanAddr :: "rvalue \<Rightarrow> bool" where
  "CanAddr x = (addr x \<noteq> None)"

section \<open>Tokens\<close>

text \<open>
  \<^verbatim>\<open>
  func NewToken[T any](name ...string) *Token[T] {
      var key string
      if len(name) > 0 && name[0] != "" { key = name[0] } else {
          var zero T
          typ := reflect.TypeOf(zero)
          if typ == nil { panic(...) }
          if typ.Kind() == reflect.Ptr { typ = typ.Elem() }
          key = typ.PkgPath() + "." + typ.Name()
          if key == "." { key = typ.String() }
      }
      return &Token[T]{key: key}
  }
  \<close>
  The result is a pointer to a newly allocated \<^verbatim>\<open>Token[T]\<close>.
\<close>

definition allocToken :: "'w state \<Rightarrow> string \<Rightarrow> nat \<times> 'w state" where
  "allocToken s key =
     (nextToken s, s\<lparr>tokens := (tokens s)(nextToken s := key), nextToken := Suc (nextToken s)\<rparr>)"

definition tokenKeyOf :: "typeNames \<Rightarrow> ty \<Rightarrow> string" where
  "tokenKeyOf R typ =
     (let typ' = (case typ of TPtr t \<Rightarrow> t | _ \<Rightarrow> typ);
          key = tyPkgPath R typ' @ ''.'' @ tyName R typ'
      in if key = ''.'' then tyString R typ' else key)"

definition NewToken :: "typeNames \<Rightarrow> 'w state \<Rightarrow> ty \<Rightarrow> string list \<Rightarrow> (error + handle) \<times> 'w state" where
  "NewToken R s T name =
     (if length name > 0 \<and> name ! 0 \<noteq> [] then
        (case allocToken s (name ! 0) of (a, s') \<Rightarrow> (Inr (TokenPtr T (Some a)), s'))
      else
        (case TypeOf (zero T) of
           None \<Rightarrow> (Inl TokenNilInterface, s)
         | Some typ \<Rightarrow>
             (case allocToken s (tokenKeyOf R typ) of (a, s') \<Rightarrow> (Inr (TokenPtr T (Some a)), s'))))"

text \<open>The \<^verbatim>\<open>key\<close> field of the token a handle points to (\<^verbatim>\<open>Token.String()\<close>).\<close>

fun tokenKey :: "'w state \<Rightarrow> handle \<Rightarrow> string option" where
  "tokenKey s (TokenPtr T (Some a)) = Some (tokens s a)"
| "tokenKey s (TokenKeyPtr a) = Some (tokens s a)"
| "tokenKey s h = None"

section \<open>The container\<close>

text \<open>
  \<^verbatim>\<open>type Container struct { registry map[any]*entry;
  typeRegistry map[reflect.Type][]*entry; parent *Container; mu sync.RWMutex }\<close>.
  The parent is fixed at construction and must exist before the child, so a container
  with its ancestors is a finite chain; a value of type \<open>container\<close> is that chain, as
  the pointer \<^verbatim>\<open>c.parent\<close> reaches it. The registry is kept as a list of pairs with
  distinct keys: Go ranges over a map in an unspecified order, and the order of the list
  stands for the order of one iteration. Statements about a scan hold for every order
  because they hold for every list. Entries are addresses into the heap of the state.
\<close>

datatype container =
  Container (registry: "(handle \<times> nat) list") (typeRegistry: "ty \<rightharpoonup> nat list")
    (parent: "container option")

definition New :: container where
  "New = Container [] Map.empty None"

definition NewScoped :: "container option \<Rightarrow> error + container" where
  "NewScoped p =
     (case p of
        None \<Rightarrow> Inl NewScopedNil
      | Some q \<Rightarrow> Inr (Container [] Map.empty (Some q)))"

text \<open>\<^verbatim>\<open>c.typeRegistry[typ]\<close>: the nil slice for a missing key.\<close>

definition typeIndex :: "container \<Rightarrow> ty \<Rightarrow> nat list" where
  "typeIndex c typ = (case typeRegistry c typ of None \<Rightarrow> [] | Some es \<Rightarrow> es)"

text \<open>
  \<^verbatim>\<open>c.registry[token] = e\<close> followed (when there is a type) by
  \<^verbatim>\<open>c.typeRegistry[typ] = append(c.typeRegistry[typ], e)\<close>.
\<close>

definition store :: "container \<Rightarrow> handle \<Rightarrow> ty option \<Rightarrow> nat \<Rightarrow> container" where
  "store c token typ e =
     Container (AList.update token e (registry c))
       (case typ of
          None \<Rightarrow> typeRegistry c
        | Some t \<Rightarrow> (typeRegistry c)(t \<mapsto> typeIndex c t @ [e]))
       (parent c)"

definition allocEntry :: "'w state \<Rightarrow> 'w entry \<Rightarrow> nat \<times> 'w state" where
  "allocEntry s e =
     (nextEntry s, s\<lparr>entries := (entries s)(nextEntry s := e), nextEntry := Suc (nextEntry s)\<rparr>)"

text \<open>
  \<^verbatim>\<open>
  func (c *Container) Provide(value any) {
      typ := reflect.TypeOf(value)
      if typ == nil { panic("Provide: cannot register nil value") }
      token := &tokenKey{key: fmt.Sprintf("__provided__%s", typ.String())}
      e := &entry{value: value, lifecycle: Singleton, depType: typ}
      c.registry[token] = e
      c.typeRegistry[typ] = append(c.typeRegistry[typ], e)
  }
  \<close>
  A mutating operation returns the container and the state as it leaves them, also when
  it panics.
\<close>

definition Provide ::
  "typeNames \<Rightarrow> 'w state \<Rightarrow> container \<Rightarrow> gval \<Rightarrow> (error + unit) \<times> container \<times> 'w state" where
  "Provide R s c v =
     (case TypeOf v of
        None \<Rightarrow> (Inl ProvideNil, c, s)
      | Some typ \<Rightarrow>
          (case allocToken s (''__provided__'' @ tyString R typ) of (tk, s1) \<Rightarrow>
          (case allocEntry s1 \<lparr>stored = v, factory = None, depType = Some typ,
                                lifecycle = Singleton, once = False\<rparr> of (e, s2) \<Rightarrow>
             (Inr (), store c (TokenKeyPtr tk) (Some typ) e, s2))))"







text \<open>
  \<^verbatim>\<open>type Registration[T any] struct { token *Token[T]; value T; factory func() T;
  lifecycle Lifecycle }\<close>, with the type parameter as the field \<open>reg_T\<close>.
  \<^verbatim>\<open>
  func (r Registration[T]) registerTo(c *Container) {
      e := &entry{lifecycle: r.lifecycle}
      if r.factory != nil { e.factory = func() any { return r.factory() } }
      else { e.value = r.value }
      var zero T
      typ := reflect.TypeOf(zero)
      if typ != nil {
          e.depType = typ
          c.typeRegistry[typ] = append(c.typeRegistry[typ], e)
      }
      c.registry[r.token] = e
  }
  \<close>
\<close>

record 'w Registration =
  reg_token :: "nat option"
  reg_T :: ty
  reg_value :: gval
  reg_factory :: "'w factory option"
  reg_lifecycle :: Lifecycle

definition registerTo :: "'w Registration \<Rightarrow> 'w state \<Rightarrow> container \<Rightarrow> container \<times> 'w state" where
  "registerTo r s c =
     (let e0 = \<lparr>stored = Nil, factory = None, depType = None,
                lifecycle = reg_lifecycle r, once = False\<rparr>;
          e1 = (case reg_factory r of
                  Some f \<Rightarrow> e0\<lparr>factory := Some f\<rparr>
                | None \<Rightarrow> e0\<lparr>stored := reg_value r\<rparr>);
          typ = TypeOf (zero (reg_T r));
          e2 = (case typ of None \<Rightarrow> e1 | Some t \<Rightarrow> e1\<lparr>depType := Some t\<rparr>)
      in case allocEntry s e2 of (e, s') \<Rightarrow>
           (store c (TokenPtr (reg_T r) (reg_token r)) typ e, s'))"

text \<open>\<^verbatim>\<open>Bind(token, value)\<close>; the lifecycle is the zero value \<^verbatim>\<open>Singleton\<close>.\<close>

definition Bind :: "nat option \<Rightarrow> ty \<Rightarrow> gval \<Rightarrow> 'w Registration" where
  "Bind tk T v = \<lparr>reg_token = tk, reg_T = T, reg_value = v, reg_factory = None,
                  reg_lifecycle = Singleton\<rparr>"

text \<open>\<^verbatim>\<open>for _, reg := range registrations { reg.registerTo(c) }\<close>\<close>

fun Register :: "'w state \<Rightarrow> container \<Rightarrow> 'w Registration list \<Rightarrow> container \<times> 'w state" where
  "Register s c [] = (c, s)"
| "Register s c (r # rs) = (case registerTo r s c of (c', s') \<Rightarrow> Register s' c' rs)"

text \<open>\<^verbatim>\<open>Clear\<close> replaces the two maps of this container by empty ones.\<close>

definition Clear :: "container \<Rightarrow> container" where
  "Clear c = Container [] Map.empty (parent c)"

section \<open>Lookup by handle\<close>

text \<open>
  \<^verbatim>\<open>
  func (c *Container) getEntry(token any) (*entry, bool) {
      e, ok := c.registry[token]
      if ok { return e, true }
      if c.parent != nil { return c.parent.getEntry(token) }
      return nil, false
  }
  \<close>
\<close>

fun getEntry :: "container \<Rightarrow> handle \<Rightarrow> nat option" where
  "getEntry (Container reg treg par) token =
     (case map_of reg token of
        Some e \<Rightarrow> Some e
      | None \<Rightarrow> (case par of Some p \<Rightarrow> getEntry p token | None \<Rightarrow> None))"

text \<open>
  \<^verbatim>\<open>
  func (c *Container) Get(token any) any {
      if token == nil { panic("cannot get with nil token") }
      e, ok := c.getEntry(token)
      if !ok { panic(fmt.Sprintf("dependency not found: %v", token)) }
      return e.resolve()
  }
  \<close>
\<close>

definition Get :: "'w state \<Rightarrow> container \<Rightarrow> handle \<Rightarrow> (error + gval) \<times> 'w state" where
  "Get s c token =
     (if token = NilHandle then (Inl GetNilToken, s)
      else
        (case getEntry c token of
           None \<Rightarrow> (Inl (DependencyNotFound token), s)
         | Some e \<Rightarrow> resolve s e))"

text \<open>The type assertion \<^verbatim>\<open>x.(T)\<close> succeeds on these values.\<close>

definition typeAssert :: "reflection \<Rightarrow> ty \<Rightarrow> gval \<Rightarrow> bool" where
  "typeAssert impl T v =
     (case TypeOf v of
        None \<Rightarrow> False
      | Some t \<Rightarrow> if Kind T = Interface then Implements impl t T else t = T)"

text \<open>
  \<^verbatim>\<open>
  func Find[T any](token *Token[T], containers ...*Container) (T, bool) {
      ...
      var zero T
      e, ok := c.getEntry(token)
      if !ok { return zero, false }
      return e.resolve().(T), true
  }
  \<close>
  with the container given; the token is the \<^verbatim>\<open>*Token[T]\<close> at address \<open>a\<close>.
\<close>

definition Find ::
  "reflection \<Rightarrow> 'w state \<Rightarrow> container \<Rightarrow> ty \<Rightarrow> nat option \<Rightarrow> (error + gval \<times> bool) \<times> 'w state" where
  "Find impl s c T a =
     (case getEntry c (TokenPtr T a) of
        None \<Rightarrow> (Inr (zero T, False), s)
      | Some e \<Rightarrow>
          (case resolve s e of
             (Inl err, s') \<Rightarrow> (Inl err, s')
           | (Inr v, s') \<Rightarrow>
               if typeAssert impl T v then (Inr (v, True), s') else (Inl TypeAssertion, s')))"

section \<open>The type matcher\<close>

text \<open>
  \<^verbatim>\<open>
  func (c *Container) isExactMatch(targetType, valType reflect.Type) bool {
      if targetType.Kind() == reflect.Interface { return valType.Implements(targetType) }
      return valType.AssignableTo(targetType)
  }
  \<close>
  \<open>valType\<close> is the \<^verbatim>\<open>depType\<close> of an entry, which is nil for an entry that
  \<^verbatim>\<open>registerTo\<close> made for an interface type; a method call on the nil
  \<^verbatim>\<open>reflect.Type\<close> panics.
\<close>

definition isExactMatch :: "reflection \<Rightarrow> ty \<Rightarrow> ty option \<Rightarrow> error + bool" where
  "isExactMatch impl targetType valType =
     (case valType of
        None \<Rightarrow> Inl RuntimePanic
      | Some vt \<Rightarrow>
          if Kind targetType = Interface then Inr (Implements impl vt targetType)
          else Inr (AssignableTo impl vt targetType))"

text \<open>
  \<^verbatim>\<open>
  func (c *Container) isSimilarType(targetType, valType reflect.Type) bool {
      if targetType == valType { return false }
      if targetType.Kind() == reflect.Ptr && valType.Kind() != reflect.Ptr {
          return targetType.Elem() == valType
      }
      if targetType.Kind() != reflect.Ptr && valType.Kind() == reflect.Ptr {
          return valType.Elem() == targetType
      }
      return false
  }
  \<close>
\<close>

definition isSimilarType :: "ty \<Rightarrow> ty \<Rightarrow> bool" where
  "isSimilarType targetType valType =
     (if targetType = valType then False
      else if Kind targetType = Ptr \<and> Kind valType \<noteq> Ptr then Elem targetType = Some valType
      else if Kind targetType \<noteq> Ptr \<and> Kind valType = Ptr then Elem valType = Some targetType
      else False)"

text \<open>
  \<^verbatim>\<open>
  func (c *Container) resolveAndConvert(targetType reflect.Type, e *entry,
                                        needsConversion bool) (any, bool) {
      resolved := e.resolve()
      if !needsConversion { return resolved, true }
      resolvedVal := reflect.ValueOf(resolved)
      resolvedType := resolvedVal.Type()
      if resolvedType == targetType { return resolved, true }
      if targetType.Kind() == reflect.Ptr && resolvedType.Kind() != reflect.Ptr {
          if targetType.Elem() != resolvedType { ...; return nil, false }
          if resolvedVal.CanAddr() { return resolvedVal.Addr().Interface(), true }
          ptr := reflect.New(resolvedType)
          ptr.Elem().Set(resolvedVal)
          return ptr.Interface(), true
      }
      if targetType.Kind() != reflect.Ptr && resolvedType.Kind() == reflect.Ptr {
          if resolvedType.Elem() != targetType { ...; return nil, false }
          if !resolvedVal.IsNil() { return resolvedVal.Elem().Interface(), true }
          return nil, false
      }
      return resolved, true
  }
  \<close>
  The pair \<^verbatim>\<open>(any, bool)\<close> is a pair of the model; \<^verbatim>\<open>(nil, false)\<close> is
  \<open>(Nil, False)\<close>. Writing to the log is not modelled.
\<close>

definition newSlot :: "'w state \<Rightarrow> gval \<Rightarrow> nat \<times> 'w state" where
  "newSlot s v =
     (nextSlot (mem s),
      s\<lparr>mem := (mem s)\<lparr>slots := (slots (mem s))(nextSlot (mem s) := v),
                        nextSlot := Suc (nextSlot (mem s))\<rparr>\<rparr>)"

definition resolveAndConvert ::
  "'w state \<Rightarrow> ty \<Rightarrow> nat \<Rightarrow> bool \<Rightarrow> (error + gval \<times> bool) \<times> 'w state" where
  "resolveAndConvert s targetType e needsConversion =
     (case resolve s e of
        (Inl err, s') \<Rightarrow> (Inl err, s')
      | (Inr resolved, s') \<Rightarrow>
          if \<not> needsConversion then (Inr (resolved, True), s')
          else
            (let resolvedVal = ValueOf resolved in
             case TypeOf (rv resolvedVal) of
               None \<Rightarrow> (Inl RuntimePanic, s')
             | Some resolvedType \<Rightarrow>
                 if resolvedType = targetType then (Inr (resolved, True), s')
                 else if Kind targetType = Ptr \<and> Kind resolvedType \<noteq> Ptr then
                   (if Elem targetType \<noteq> Some resolvedType then (Inr (Nil, False), s')
                    else if CanAddr resolvedVal then
                      (Inr (Pointer resolvedType (addr resolvedVal), True), s')
                    else
                      (case newSlot s' (rv resolvedVal) of (a, s'') \<Rightarrow>
                         (Inr (Pointer resolvedType (Some a), True), s'')))
                 else if Kind targetType \<noteq> Ptr \<and> Kind resolvedType = Ptr then
                   (if Elem resolvedType \<noteq> Some targetType then (Inr (Nil, False), s')
                    else
                      (case rv resolvedVal of
                         Pointer t (Some a) \<Rightarrow> (Inr (slots (mem s') a, True), s')
                       | _ \<Rightarrow> (Inr (Nil, False), s')))
                 else (Inr (resolved, True), s')))"

section \<open>Resolution by type\<close>

text \<open>
  The loop of \<^verbatim>\<open>findSingleEntry\<close> over the registry, with its two variables:
  \<^verbatim>\<open>
  for _, e := range c.registry {
      valType := e.depType
      if c.isExactMatch(targetType, valType) {
          if exactMatch != nil { panic(fmt.Errorf("multiple candidates ... in registry")) }
          exactMatch = e
      } else if similarMatch == nil && c.isSimilarType(targetType, valType) {
          similarMatch = e
      }
  }
  \<close>
\<close>

fun scanRegistry ::
  "reflection \<Rightarrow> (nat \<Rightarrow> 'w entry) \<Rightarrow> ty \<Rightarrow> (handle \<times> nat) list \<Rightarrow> nat option \<Rightarrow> nat option
     \<Rightarrow> error + (nat option \<times> nat option)" where
  "scanRegistry impl es targetType [] exactMatch similarMatch = Inr (exactMatch, similarMatch)"
| "scanRegistry impl es targetType ((h, e) # rest) exactMatch similarMatch =
     (case isExactMatch impl targetType (depType (es e)) of
        Inl err \<Rightarrow> Inl err
      | Inr True \<Rightarrow>
          if exactMatch \<noteq> None then Inl (MultipleInRegistry targetType)
          else scanRegistry impl es targetType rest (Some e) similarMatch
      | Inr False \<Rightarrow>
          if similarMatch = None \<and>
             (case depType (es e) of Some vt \<Rightarrow> isSimilarType targetType vt | None \<Rightarrow> False)
          then scanRegistry impl es targetType rest exactMatch (Some e)
          else scanRegistry impl es targetType rest exactMatch similarMatch)"

text \<open>
  \<^verbatim>\<open>
  func (c *Container) findSingleEntry(targetType reflect.Type) (any, bool) {
      ... the loop ...
      if exactMatch != nil { return exactMatch.resolve(), true }
      if c.parent != nil {
          if val, ok := c.parent.findSingleEntry(targetType); ok { return val, true }
      }
      if similarMatch != nil { ...; return c.resolveAndConvert(targetType, similarMatch, true) }
      return nil, false
  }
  \<close>
\<close>

definition found :: "(error + gval) \<times> 'w state \<Rightarrow> (error + gval \<times> bool) \<times> 'w state" where
  "found x = (case x of (Inl err, s) \<Rightarrow> (Inl err, s) | (Inr v, s) \<Rightarrow> (Inr (v, True), s))"

fun findSingleEntry ::
  "reflection \<Rightarrow> 'w state \<Rightarrow> container \<Rightarrow> ty \<Rightarrow> (error + gval \<times> bool) \<times> 'w state" where
  "findSingleEntry impl s (Container reg treg par) targetType =
     (case scanRegistry impl (entries s) targetType reg None None of
        Inl err \<Rightarrow> (Inl err, s)
      | Inr (Some exactMatch, similarMatch) \<Rightarrow> found (resolve s exactMatch)
      | Inr (None, similarMatch) \<Rightarrow>
          (case (case par of
                   None \<Rightarrow> (Inr (Nil, False), s)
                 | Some p \<Rightarrow> findSingleEntry impl s p targetType) of
             (Inl err, s') \<Rightarrow> (Inl err, s')
           | (Inr (val, True), s') \<Rightarrow> (Inr (val, True), s')
           | (Inr (val, False), s') \<Rightarrow>
               (case similarMatch of
                  Some e \<Rightarrow> resolveAndConvert s' targetType e True
                | None \<Rightarrow> (Inr (Nil, False), s'))))"

text \<open>
  \<^verbatim>\<open>
  func (c *Container) Resolve(targetType reflect.Type) (any, bool) {
      if entries, ok := c.typeRegistry[targetType]; ok && len(entries) > 0 {
          if len(entries) > 1 { panic(fmt.Errorf("multiple candidates found ...")) }
          return entries[0].resolve(), true
      }
      return c.findSingleEntry(targetType)
  }
  \<close>
\<close>

definition Resolve ::
  "reflection \<Rightarrow> 'w state \<Rightarrow> container \<Rightarrow> ty \<Rightarrow> (error + gval \<times> bool) \<times> 'w state" where
  "Resolve impl s c targetType =
     (case typeRegistry c targetType of
        Some (e # es) \<Rightarrow>
          if length (e # es) > 1 then (Inl (MultipleCandidates targetType (length (e # es))), s)
          else found (resolve s e)
      | _ \<Rightarrow> findSingleEntry impl s c targetType)"

section \<open>Struct injection\<close>

text \<open>
  \<^verbatim>\<open>fieldValue.Set(reflect.ValueOf(val))\<close> on field \<open>i\<close> of the struct in slot \<open>a\<close>:
  \<^verbatim>\<open>Set\<close> panics on the zero Value (a nil \<open>val\<close>) and on a value that is not
  assignable to the field's type.
\<close>

definition setField ::
  "reflection \<Rightarrow> 'w state \<Rightarrow> nat \<Rightarrow> nat \<Rightarrow> ty \<Rightarrow> gval \<Rightarrow> error + 'w state" where
  "setField impl s a i ftype v =
     (case TypeOf v of
        None \<Rightarrow> Inl RuntimePanic
      | Some t \<Rightarrow>
          if \<not> AssignableTo impl t ftype then Inl RuntimePanic
          else
            (case slots (mem s) a of
               StructV st vs \<Rightarrow>
                 Inr (s\<lparr>mem := (mem s)\<lparr>slots := (slots (mem s))(a := StructV st (vs[i := v]))\<rparr>\<rparr>)
             | _ \<Rightarrow> Inl RuntimePanic))"

text \<open>
  The loop of \<^verbatim>\<open>Inject\<close> over the fields of the struct type, from field \<open>i\<close> on:
  \<^verbatim>\<open>
  for i := 0; i < targetType.NumField(); i++ {
      field := targetType.Field(i)
      fieldValue := targetValue.Field(i)
      if !fieldValue.CanSet() { continue }
      if val, ok := c.Resolve(field.Type); ok {
          fieldValue.Set(reflect.ValueOf(val))
          continue
      }
      if field.Type.Kind() == reflect.Struct {
          newStruct := reflect.New(field.Type)
          c.Inject(newStruct.Interface())
          fieldValue.Set(newStruct.Elem())
          continue
      }
      panic(fmt.Sprintf("Inject: could not resolve field %s (%s) in struct %s", ...))
  }
  \<close>
  \<open>target\<close> is the address the pointer holds (\<open>None\<close> for a nil pointer, on which
  \<^verbatim>\<open>targetValue.Field(i)\<close> panics). A field of a struct reached through a pointer can be
  set when it is exported. The recursive \<^verbatim>\<open>c.Inject\<close> gets a pointer to a new struct,
  so it passes the two checks of \<^verbatim>\<open>Inject\<close> and runs this loop on the field's type.
\<close>

function injectFields ::
  "reflection \<Rightarrow> 'w state \<Rightarrow> container \<Rightarrow> nat option \<Rightarrow> string \<Rightarrow> (string \<times> bool \<times> ty) list
     \<Rightarrow> nat \<Rightarrow> (error + unit) \<times> 'w state" where
  "injectFields impl s c target sname [] i = (Inr (), s)"
| "injectFields impl s c target sname ((fname, exported, ftype) # rest) i =
     (case target of
        None \<Rightarrow> (Inl RuntimePanic, s)
      | Some a \<Rightarrow>
          if \<not> exported then injectFields impl s c target sname rest (Suc i)
          else
            (case Resolve impl s c ftype of
               (Inl err, s1) \<Rightarrow> (Inl err, s1)
             | (Inr (val, True), s1) \<Rightarrow>
                 (case setField impl s1 a i ftype val of
                    Inl err \<Rightarrow> (Inl err, s1)
                  | Inr s2 \<Rightarrow> injectFields impl s2 c target sname rest (Suc i))
             | (Inr (val, False), s1) \<Rightarrow>
                 (case ftype of
                    TStruct n fs \<Rightarrow>
                      (case newSlot s1 (zero ftype) of (a', s2) \<Rightarrow>
                        (case injectFields impl s2 c (Some a') n fs 0 of
                           (Inl err, s3) \<Rightarrow> (Inl err, s3)
                         | (Inr u, s3) \<Rightarrow>
                             (case setField impl s3 a i ftype (slots (mem s3) a') of
                                Inl err \<Rightarrow> (Inl err, s3)
                              | Inr s4 \<Rightarrow> injectFields impl s4 c target sname rest (Suc i))))
                  | _ \<Rightarrow> (Inl (InjectUnresolved fname ftype sname), s1))))"
  by pat_completeness auto
termination
  by (relation "measure (\<lambda>(impl, s, c, target, sname, fs, i). size_list (size_prod (\<lambda>x. 0) (size_prod (\<lambda>x. 0) size)) fs)")
    auto

text \<open>
  \<^verbatim>\<open>
  func (c *Container) Inject(target any) {
      targetValue := reflect.ValueOf(target)
      targetType := targetValue.Type()
      if targetType.Kind() != reflect.Ptr { panic("Inject: target must be a pointer to a struct") }
      targetType = targetType.Elem()
      targetValue = targetValue.Elem()
      if targetType.Kind() != reflect.Struct { panic("Inject: target must be a pointer to a struct") }
      ... the loop ...
  }
  \<close>
\<close>

definition Inject :: "reflection \<Rightarrow> 'w state \<Rightarrow> container \<Rightarrow> gval \<Rightarrow> (error + unit) \<times> 'w state" where
  "Inject impl s c target =
     (case target of
        Nil \<Rightarrow> (Inl RuntimePanic, s)
      | Pointer (TStruct n fs) a \<Rightarrow> injectFields impl s c a n fs 0
      | _ \<Rightarrow> (Inl InjectTarget, s))"

section \<open>What a scan of the registry finds\<close>

text \<open>
  The entries of a registry list whose declared type is an exact match for the target,
  and those whose declared type is no exact match but a similar one, both in the order of
  the list; and the registry lists all of whose entries have a declared type.
\<close>

definition exactMatches ::
  "reflection \<Rightarrow> (nat \<Rightarrow> 'w entry) \<Rightarrow> ty \<Rightarrow> (handle \<times> nat) list \<Rightarrow> nat list" where
  "exactMatches impl es targetType reg =
     filter (\<lambda>e. isExactMatch impl targetType (depType (es e)) = Inr True) (map snd reg)"

definition similarMatches ::
  "reflection \<Rightarrow> (nat \<Rightarrow> 'w entry) \<Rightarrow> ty \<Rightarrow> (handle \<times> nat) list \<Rightarrow> nat list" where
  "similarMatches impl es targetType reg =
     filter (\<lambda>e. isExactMatch impl targetType (depType (es e)) = Inr False \<and>
                 (case depType (es e) of Some vt \<Rightarrow> isSimilarType targetType vt | None \<Rightarrow> False))
       (map snd reg)"

definition typed :: "(nat \<Rightarrow> 'w entry) \<Rightarrow> (handle \<times> nat) list \<Rightarrow> bool" where
  "typed es reg = list_all (\<lambda>p. depType (es (snd p)) \<noteq> None) reg"

section \<open>Addresses in use, and runs of operations\<close>

text \<open>
  Every token a container or one of its ancestors has as a key was allocated before the
  counter reached \<open>n\<close>.
\<close>

fun handlesBelow :: "nat \<Rightarrow> container \<Rightarrow> bool" where
  "handlesBelow n (Container reg treg par) =
     (list_all (\<lambda>p. case fst p of
                       TokenPtr T (Some a) \<Rightarrow> a < n
                     | TokenKeyPtr a \<Rightarrow> a < n
                     | _ \<Rightarrow> True) reg \<and>
      (case par of None \<Rightarrow> True | Some p \<Rightarrow> handlesBelow n p))"






text \<open>No entry was created and no declared type changed between two states.\<close>

definition keepsTypes :: "'w state \<Rightarrow> 'w state \<Rightarrow> bool" where
  "keepsTypes s s' =
     (nextEntry s' = nextEntry s \<and> (\<forall>e. depType (entries s' e) = depType (entries s e)))"


section \<open>Example programs\<close>

text \<open>
  A factory that counts its calls in the environment, as the tests do with
  \<^verbatim>\<open>callCount++\<close>: it returns the count before the call.
\<close>

definition counter :: "nat factory" where
  "counter m = (Inr (Basic (TBasic ''int'') (world m)), m\<lparr>world := Suc (world m)\<rparr>)"

definition emptyMemory :: "nat memory" where
  "emptyMemory = \<lparr>slots = (\<lambda>a. Nil), nextSlot = 0, world = 0\<rparr>"

definition counterEntry :: "Lifecycle \<Rightarrow> nat entry" where
  "counterEntry lc = \<lparr>stored = Nil, factory = Some counter, depType = Some (TBasic ''int''),
                       lifecycle = lc, once = False\<rparr>"

text \<open>A state whose only entry, at address 0, is a counting factory.\<close>

definition counterState :: "Lifecycle \<Rightarrow> nat state" where
  "counterState lc = \<lparr>entries = (\<lambda>a. counterEntry lc), nextEntry = 1, tokens = (\<lambda>a. []),
                       nextToken = 0, mem = emptyMemory\<rparr>"

text \<open>The types of the tests, an interface, and what reflection says about them.\<close>

definition Service :: ty where
  "Service = TStruct ''Service'' [(''Name'', True, TBasic ''string'')]"

definition Database :: ty where
  "Database = TStruct ''Database'' [(''ConnectionString'', True, TBasic ''string'')]"

definition Repository :: ty where
  "Repository = TStruct ''Repository'' [(''DB'', True, TPtr Database)]"

definition Logger :: ty where
  "Logger = TIface ''Logger''"

fun typeString :: "ty \<Rightarrow> string" where
  "typeString (TBasic n) = n"
| "typeString (TPtr t) = ''*'' @ typeString t"
| "typeString (TStruct n fs) = ''dshot_test.'' @ n"
| "typeString (TIface n) = ''dshot_test.'' @ n"
| "typeString (TFunc ins outs) = ''func''"

fun typeName :: "ty \<Rightarrow> string" where
  "typeName (TBasic n) = n"
| "typeName (TStruct n fs) = n"
| "typeName (TIface n) = n"
| "typeName t = []"

fun typePkgPath :: "ty \<Rightarrow> string" where
  "typePkgPath (TStruct n fs) = ''github.com/overdevelop/dshot_test''"
| "typePkgPath (TIface n) = ''github.com/overdevelop/dshot_test''"
| "typePkgPath t = []"

definition testNames :: typeNames where
  "testNames = \<lparr>tyPkgPath = typePkgPath, tyName = typeName, tyString = typeString\<rparr>"

text \<open>Two programs: in one no type has methods; in the other \<^verbatim>\<open>*Service\<close> implements
  \<^verbatim>\<open>Logger\<close>.\<close>

definition noMethods :: reflection where
  "noMethods = \<lparr>Implements = (\<lambda>V T. False), IdenticalUnderlying = (\<lambda>T V. False)\<rparr>"

definition serviceLogs :: reflection where
  "serviceLogs =
     \<lparr>Implements = (\<lambda>V T. T = Logger \<and> (V = TPtr Service \<or> V = Logger)),
      IdenticalUnderlying = (\<lambda>T V. False)\<rparr>"

text \<open>
  A state with nothing registered. Its heap holds two \<^verbatim>\<open>Service\<close> structs (slots 0
  and 1) and a zero \<^verbatim>\<open>Repository\<close> (slot 2).
\<close>

definition testMemory :: "nat memory" where
  "testMemory =
     \<lparr>slots = (\<lambda>a. Nil)(0 := StructV Service [Basic (TBasic ''string'') 1],
                          1 := StructV Service [Basic (TBasic ''string'') 2],
                          2 := StructV Repository [Pointer Database None]),
      nextSlot = 3, world = 0\<rparr>"

definition testState :: "nat state" where
  "testState =
     \<lparr>entries = (\<lambda>a. \<lparr>stored = Nil, factory = None, depType = None, lifecycle = Singleton,
                       once = False\<rparr>),
      nextEntry = 0, tokens = (\<lambda>a. []), nextToken = 0, mem = testMemory\<rparr>"

text \<open>
  \<^verbatim>\<open>TestMultipleRegistrations\<close>: two tokens for \<^verbatim>\<open>*Service\<close>, each bound to its own
  service, registered in a new container.
\<close>

definition twoTokens :: "nat state" where
  "twoTokens =
     snd (NewToken testNames (snd (NewToken testNames testState (TPtr Service) [''service1'']))
            (TPtr Service) [''service2''])"

definition twoServices :: "container \<times> nat state" where
  "twoServices =
     Register twoTokens New
       [Bind (Some 0) (TPtr Service) (Pointer Service (Some 0)),
        Bind (Some 1) (TPtr Service) (Pointer Service (Some 1))]"

text \<open>
  \<^verbatim>\<open>TestClear_DoesNotAffectParent\<close>: the parent provides a \<^verbatim>\<open>*Service\<close>, the scoped
  container a \<^verbatim>\<open>Database\<close>.
\<close>

definition parentWithService :: "container \<times> nat state" where
  "parentWithService = snd (Provide testNames testState New (Pointer Service (Some 0)))"

definition scopedWithDatabase :: "container \<times> nat state" where
  "scopedWithDatabase =
     (case NewScoped (Some (fst parentWithService)) of
        Inl err \<Rightarrow> (New, testState)
      | Inr c \<Rightarrow>
          snd (Provide testNames (snd parentWithService) c
                 (StructV Database [Basic (TBasic ''string'') 3])))"

text \<open>A container that holds a nil \<^verbatim>\<open>*Database\<close>, bound to a token.\<close>

definition nilDatabase :: "container \<times> nat state" where
  "nilDatabase =
     Register (snd (NewToken testNames testState (TPtr Database) [''db'']))
       New [Bind (Some 0) (TPtr Database) (Pointer Database None)]"

text \<open>A container that holds a bare \<^verbatim>\<open>Database\<close> value.\<close>

definition bareDatabase :: "container \<times> nat state" where
  "bareDatabase =
     snd (Provide testNames testState New (StructV Database [Basic (TBasic ''string'') 3]))"

text \<open>
  A scoped container whose parent is empty and that binds a token for the interface
  \<^verbatim>\<open>Logger\<close> to a \<^verbatim>\<open>*Service\<close>, which implements it:
  \<^verbatim>\<open>c.Register(Bind(NewToken[Logger]("logger"), svc))\<close>.
\<close>

definition loggerBound :: "container \<times> nat state" where
  "loggerBound =
     Register (snd (NewToken testNames testState Logger [''logger'']))
       (Container [] Map.empty (Some New))
       [Bind (Some 0) Logger (Pointer Service (Some 0))]"

text \<open>
  Two tokens made by two calls \<^verbatim>\<open>NewToken[*Service]("service")\<close>; a service is bound to
  the first in a new container.
\<close>

definition sameName :: "container \<times> nat state" where
  "sameName =
     Register
       (snd (NewToken testNames (snd (NewToken testNames testState (TPtr Service) [''service'']))
               (TPtr Service) [''service'']))
       New [Bind (Some 0) (TPtr Service) (Pointer Service (Some 0))]"



text \<open>
  A container that holds a bare \<^verbatim>\<open>Database\<close> value and binds a token for the
  interface \<^verbatim>\<open>Logger\<close>.
\<close>

definition databaseAndLogger :: "container \<times> nat state" where
  "databaseAndLogger =
     (case snd (Provide testNames (snd (NewToken testNames testState Logger [''logger'']))
                  New (StructV Database [Basic (TBasic ''string'') 3])) of
        (c, s) \<Rightarrow> Register s c [Bind (Some 0) Logger (Pointer Service (Some 0))])"


section \<open>The scan of the registry\<close>

lemma isExactMatch_typed: "vt \<noteq> None \<Longrightarrow> \<exists>b. isExactMatch impl T vt = Inr b"
  by (cases vt) (auto simp: isExactMatch_def)

lemma exactMatches_Nil [simp]: "exactMatches impl es T [] = []"
  by (simp add: exactMatches_def)

lemma similarMatches_Nil [simp]: "similarMatches impl es T [] = []"
  by (simp add: similarMatches_def)

lemma exactMatches_Cons:
  "exactMatches impl es T ((h, e) # reg) =
     (if isExactMatch impl T (depType (es e)) = Inr True then e # exactMatches impl es T reg
      else exactMatches impl es T reg)"
  by (simp add: exactMatches_def)

lemma similarMatches_Cons:
  "similarMatches impl es T ((h, e) # reg) =
     (if isExactMatch impl T (depType (es e)) = Inr False \<and>
         (case depType (es e) of Some vt \<Rightarrow> isSimilarType T vt | None \<Rightarrow> False)
      then e # similarMatches impl es T reg
      else similarMatches impl es T reg)"
  by (simp add: similarMatches_def)

lemma scanRegistry_typed:
  "typed es reg \<Longrightarrow>
   scanRegistry impl es T reg ex sim =
     (if (ex \<noteq> None \<and> exactMatches impl es T reg \<noteq> []) \<or> 1 < length (exactMatches impl es T reg)
      then Inl (MultipleInRegistry T)
      else Inr (case exactMatches impl es T reg of [] \<Rightarrow> ex | e # others \<Rightarrow> Some e,
                case sim of
                  Some x \<Rightarrow> Some x
                | None \<Rightarrow> (case similarMatches impl es T reg of [] \<Rightarrow> None | e # others \<Rightarrow> Some e)))"
proof (induction impl es T reg ex sim rule: scanRegistry.induct)
  case (1 impl es T ex sim)
  then show ?case by (cases sim) simp_all
next
  case (2 impl es T h e reg ex sim)
  from "2.prems" have t: "depType (es e) \<noteq> None" and tr: "typed es reg"
    by (simp_all add: typed_def)
  from isExactMatch_typed [OF t] obtain b where b: "isExactMatch impl T (depType (es e)) = Inr b"
    by blast
  show ?case
  proof (cases b)
    case True
    show ?thesis
    proof (cases ex)
      case None
      with True b "2.IH"(1) [OF b [unfolded True [THEN eqTrueI]]] tr
      show ?thesis
        by (cases "exactMatches impl es T reg"; cases sim)
          (simp_all add: exactMatches_Cons similarMatches_Cons)
    next
      case (Some x)
      with True b show ?thesis
        by (cases sim) (simp_all add: exactMatches_Cons)
    qed
  next
    case False
    show ?thesis
    proof (cases "sim = None \<and> (case depType (es e) of Some vt \<Rightarrow> isSimilarType T vt | None \<Rightarrow> False)")
      case True
      with False b "2.IH"(2) [OF _ _ True tr] show ?thesis
        by (simp add: exactMatches_Cons similarMatches_Cons)
    next
      case nosim: False
      with False b "2.IH"(3) [OF _ _ nosim tr] show ?thesis
        by (cases sim) (auto simp add: exactMatches_Cons similarMatches_Cons)
    qed
  qed
qed

lemma scanRegistry_untyped:
  "(h, e) \<in> set reg \<Longrightarrow> depType (es e) = None \<Longrightarrow>
   \<exists>err. scanRegistry impl es T reg ex sim = Inl err"
proof (induction reg arbitrary: ex sim)
  case Nil
  then show ?case by simp
next
  case (Cons p reg)
  obtain h' e' where p: "p = (h', e')" by (cases p)
  show ?case
  proof (cases "isExactMatch impl T (depType (es e'))")
    case (Inl err)
    then show ?thesis by (simp add: p)
  next
    case (Inr b)
    then have "depType (es e') \<noteq> None" by (auto simp: isExactMatch_def split: option.splits)
    with Cons.prems have "(h, e) \<in> set reg" by (auto simp: p)
    from Cons.IH [OF this Cons.prems(2)] show ?thesis
      using Inr by (cases b) (auto simp: p)
  qed
qed

section \<open>Lifecycle of an entry\<close>

lemma resolve_memoized:
  "factory (entries s r) = Some f \<Longrightarrow> lifecycle (entries s r) = Singleton \<Longrightarrow> once (entries s r)
   \<Longrightarrow> resolve s r = (Inr (stored (entries s r)), s)"
  by (simp add: resolve_def)

lemma resolveN_memoized:
  "factory (entries s r) = Some f \<Longrightarrow> lifecycle (entries s r) = Singleton \<Longrightarrow> once (entries s r)
   \<Longrightarrow> resolveN n s r = (replicate n (Inr (stored (entries s r))), s)"
  by (induction n) (simp_all add: resolve_memoized)

lemma resolve_first:
  assumes "factory (entries s r) = Some f" "lifecycle (entries s r) = Singleton"
    "\<not> once (entries s r)"
  shows "\<exists>s'. resolve s r = (fst (f (mem s)), s') \<and> mem s' = snd (f (mem s)) \<and>
      factory (entries s' r) = Some f \<and> lifecycle (entries s' r) = Singleton \<and>
      once (entries s' r) \<and>
      stored (entries s' r) =
        (case fst (f (mem s)) of Inr v \<Rightarrow> v | Inl e \<Rightarrow> stored (entries s r))"
  using assms by (cases "f (mem s)") (auto simp: resolve_def split: sum.splits)

text \<open>
  Claim C3. A Singleton factory entry that has not been resolved yet is resolved \<open>n \<ge> 1\<close>
  times. The factory \<open>f\<close> is called exactly once: the memory after the \<open>n\<close> calls is the
  memory one call of \<open>f\<close> leaves. When that call returns \<open>v\<close>, all \<open>n\<close> resolutions return
  \<open>v\<close>. (When it panics, the first resolution panics and the later ones return the value
  the entry held, still without calling \<open>f\<close>.)
\<close>

theorem singleton_factory_invoked_once:
  assumes "factory (entries s r) = Some f" "lifecycle (entries s r) = Singleton"
    "\<not> once (entries s r)" "1 \<le> n"
  shows "mem (snd (resolveN n s r)) = snd (f (mem s)) \<and>
     (\<forall>v. fst (f (mem s)) = Inr v \<longrightarrow> fst (resolveN n s r) = replicate n (Inr v)) \<and>
     (\<forall>err. fst (f (mem s)) = Inl err \<longrightarrow>
        fst (resolveN n s r) = Inl err # replicate (n - 1) (Inr (stored (entries s r))))"
proof -
  from \<open>1 \<le> n\<close> obtain k where n: "n = Suc k" by (cases n) auto
  from resolve_first [OF assms(1-3)] obtain s' where
    s': "resolve s r = (fst (f (mem s)), s')" "mem s' = snd (f (mem s))"
      "factory (entries s' r) = Some f" "lifecycle (entries s' r) = Singleton"
      "once (entries s' r)"
      "stored (entries s' r) =
         (case fst (f (mem s)) of Inr v \<Rightarrow> v | Inl e \<Rightarrow> stored (entries s r))"
    by blast
  have rest: "resolveN k s' r = (replicate k (Inr (stored (entries s' r))), s')"
    by (rule resolveN_memoized [OF s'(3-5)])
  show ?thesis
    by (simp add: n s' rest)
qed

text \<open>Three resolutions of a counting Singleton factory: one call, three times its value.\<close>

theorem singleton_factory_invoked_once_witness:
  "world (mem (snd (resolveN 3 (counterState Singleton) 0))) = 1 \<and>
   fst (resolveN 3 (counterState Singleton) 0) = replicate 3 (Inr (Basic (TBasic ''int'') 0))"
  using singleton_factory_invoked_once [of "counterState Singleton" 0 counter 3]
  by (simp add: counterState_def counterEntry_def emptyMemory_def counter_def)

lemma calls_length: "length (fst (calls n f m)) = n"
proof (induction n arbitrary: m)
  case 0
  then show ?case by simp
next
  case (Suc n)
  obtain x m' where f: "f m = (x, m')" by (cases "f m")
  show ?case using Suc.IH [of m'] by (cases "calls n f m'") (simp add: f)
qed

text \<open>
  Claim C4. A Prototype factory entry is resolved \<open>n\<close> times. The \<open>n\<close> results are the results
  of \<open>n\<close> successive calls of the factory, each on the memory the call before left, and the
  memory afterwards is the memory after those \<open>n\<close> calls; nothing is memoized, the entry
  is unchanged.
\<close>

theorem prototype_factory_invoked_each_time:
  assumes "factory (entries s r) = Some f" "lifecycle (entries s r) = Prototype"
  shows "resolveN n s r = (fst (calls n f (mem s)), s\<lparr>mem := snd (calls n f (mem s))\<rparr>) \<and>
     length (fst (resolveN n s r)) = n"
proof -
  have "resolveN n s r = (fst (calls n f (mem s)), s\<lparr>mem := snd (calls n f (mem s))\<rparr>)"
    using assms
  proof (induction n arbitrary: s)
    case 0
    then show ?case by simp
  next
    case (Suc n)
    obtain x m' where f: "f (mem s) = (x, m')" by (cases "f (mem s)")
    have r: "resolve s r = (x, s\<lparr>mem := m'\<rparr>)"
      using Suc.prems f by (simp add: resolve_def)
    have "resolveN n (s\<lparr>mem := m'\<rparr>) r =
       (fst (calls n f m'), s\<lparr>mem := m'\<rparr>\<lparr>mem := snd (calls n f m')\<rparr>)"
      using Suc.IH [of "s\<lparr>mem := m'\<rparr>"] Suc.prems by simp
    then show ?case
      by (simp add: r f split: prod.splits)
  qed
  then show ?thesis by (simp add: calls_length)
qed

text \<open>Three resolutions of a counting Prototype factory: three calls, three values.\<close>

theorem prototype_factory_invoked_each_time_witness:
  "fst (resolveN 3 (counterState Prototype) 0) =
     [Inr (Basic (TBasic ''int'') 0), Inr (Basic (TBasic ''int'') 1),
      Inr (Basic (TBasic ''int'') 2)] \<and>
   world (mem (snd (resolveN 3 (counterState Prototype) 0))) = 3"
  using prototype_factory_invoked_each_time [of "counterState Prototype" 0 counter 3]
  by (simp add: counterState_def counterEntry_def emptyMemory_def counter_def numeral_3_eq_3)

section \<open>Searching a container and its ancestors\<close>

lemma findSingleEntry_exact:
  "typed (entries s) reg \<Longrightarrow> exactMatches impl (entries s) T reg = [e] \<Longrightarrow>
   findSingleEntry impl s (Container reg treg par) T = found (resolve s e)"
  by (simp add: scanRegistry_typed)

lemma findSingleEntry_ambiguous:
  "typed (entries s) reg \<Longrightarrow> 1 < length (exactMatches impl (entries s) T reg) \<Longrightarrow>
   findSingleEntry impl s (Container reg treg par) T = (Inl (MultipleInRegistry T), s)"
  by (simp add: scanRegistry_typed)

lemma findSingleEntry_no_exact:
  "typed (entries s) reg \<Longrightarrow> exactMatches impl (entries s) T reg = [] \<Longrightarrow>
   findSingleEntry impl s (Container reg treg par) T =
     (case (case par of None \<Rightarrow> (Inr (Nil, False), s) | Some p \<Rightarrow> findSingleEntry impl s p T) of
        (Inl err, s') \<Rightarrow> (Inl err, s')
      | (Inr (val, True), s') \<Rightarrow> (Inr (val, True), s')
      | (Inr (val, False), s') \<Rightarrow>
          (case similarMatches impl (entries s) T reg of
             [] \<Rightarrow> (Inr (Nil, False), s')
           | e # others \<Rightarrow> resolveAndConvert s' T e True))"
  by (simp add: scanRegistry_typed split: list.splits prod.splits sum.splits bool.splits option.splits)

lemma findSingleEntry_untyped:
  assumes "(h, e) \<in> set reg" "depType (entries s e) = None"
  shows "\<exists>err. findSingleEntry impl s (Container reg treg par) T = (Inl err, s)"
proof -
  from scanRegistry_untyped [of h e reg "entries s" impl T None None] assms obtain err
    where "scanRegistry impl (entries s) T reg None None = Inl err" by blast
  then show ?thesis by simp
qed

lemma Resolve_index_one:
  "typeRegistry c T = Some [e] \<Longrightarrow> Resolve impl s c T = found (resolve s e)"
  by (simp add: Resolve_def)

lemma Resolve_index_many:
  "typeRegistry c T = Some es \<Longrightarrow> 1 < length es \<Longrightarrow>
   Resolve impl s c T = (Inl (MultipleCandidates T (length es)), s)"
  by (cases es) (simp_all add: Resolve_def)

lemma Resolve_index_miss:
  "typeIndex c T = [] \<Longrightarrow> Resolve impl s c T = findSingleEntry impl s c T"
  by (auto simp: Resolve_def typeIndex_def split: option.splits list.splits)

section \<open>Ambiguity, clearing, coercion\<close>

lemma getEntry_local: "map_of (registry c) h = Some e \<Longrightarrow> getEntry c h = Some e"
  by (cases c) simp

lemma Get_local:
  "h \<noteq> NilHandle \<Longrightarrow> map_of (registry c) h = Some e \<Longrightarrow> Get s c h = resolve s e"
  by (simp add: Get_def getEntry_local)

lemma resolve_value: "factory (entries s e) = None \<Longrightarrow> resolve s e = (Inr (stored (entries s e)), s)"
  by (simp add: resolve_def)

lemma two_members_length: "x \<in> set xs \<Longrightarrow> y \<in> set xs \<Longrightarrow> x \<noteq> y \<Longrightarrow> 1 < length xs"
  by (cases xs; cases "tl xs") auto

text \<open>
  Claim C2. Two different entries with the same declared type \<open>T\<close> are registered in one
  container: both are in its type index under \<open>T\<close>, and its registry maps the handles
  \<open>h1\<close> and \<open>h2\<close> to them. Then \<^verbatim>\<open>Resolve(T)\<close> panics with the multiple-candidates
  error and changes nothing, the two handles are different, and \<^verbatim>\<open>Get\<close> with each handle
  is \<^verbatim>\<open>resolve\<close> of that handle's entry: for a value entry, the value it stores.
\<close>

theorem ambiguous_by_type_resolvable_by_handle:
  assumes "depType (entries s e1) = Some T" "depType (entries s e2) = Some T" "e1 \<noteq> e2"
    "typeRegistry c T = Some es" "e1 \<in> set es" "e2 \<in> set es"
    "map_of (registry c) h1 = Some e1" "map_of (registry c) h2 = Some e2"
    "h1 \<noteq> NilHandle" "h2 \<noteq> NilHandle"
  shows "Resolve impl s c T = (Inl (MultipleCandidates T (length es)), s) \<and> 1 < length es \<and>
     h1 \<noteq> h2 \<and> Get s c h1 = resolve s e1 \<and> Get s c h2 = resolve s e2 \<and>
     (factory (entries s e1) = None \<longrightarrow> Get s c h1 = (Inr (stored (entries s e1)), s)) \<and>
     (factory (entries s e2) = None \<longrightarrow> Get s c h2 = (Inr (stored (entries s e2)), s))"
proof -
  have len: "1 < length es"
    using assms(3,5,6) by (rule two_members_length [of e1 es e2, rotated 2])
  have ne: "h1 \<noteq> h2" using assms(3,7,8) by auto
  have g1: "Get s c h1 = resolve s e1" using assms(7,9) by (simp add: Get_local)
  have g2: "Get s c h2 = resolve s e2" using assms(8,10) by (simp add: Get_local)
  show ?thesis
    using len ne g1 g2 Resolve_index_many [OF assms(4) len] by (simp add: resolve_value)
qed

lemma resolveAndConvert_miss_Nil:
  "resolveAndConvert s T e True = (Inr (v, False), s') \<Longrightarrow> v = Nil"
  by (auto simp: resolveAndConvert_def Let_def newSlot_def split: prod.splits sum.splits option.splits
      if_splits gval.splits)

lemma found_True: "found x = (Inr (v, b), s') \<Longrightarrow> b"
  by (auto simp: found_def split: prod.splits sum.splits)

lemma findSingleEntry_miss_Nil:
  "findSingleEntry impl s c T = (Inr (v, False), s') \<Longrightarrow> v = Nil"
proof (induction impl s c T arbitrary: v s' rule: findSingleEntry.induct)
  case (1 impl s reg treg par T)
  show ?case
  proof (cases "scanRegistry impl (entries s) T reg None None")
    case (Inl err)
    with "1.prems" show ?thesis by simp
  next
    case (Inr r)
    obtain ex sim where r: "r = (ex, sim)" by (cases r)
    show ?thesis
    proof (cases ex)
      case (Some e)
      with "1.prems" Inr r show ?thesis by (auto dest: found_True)
    next
      case None
      with "1.prems" Inr r show ?thesis
        by (auto split: prod.splits sum.splits bool.splits option.splits
            dest: resolveAndConvert_miss_Nil)
    qed
  qed
qed

lemma findSingleEntry_empty_child:
  "findSingleEntry impl s (Container [] treg (Some p)) T = findSingleEntry impl s p T"
proof (cases "findSingleEntry impl s p T")
  case (Pair x s')
  show ?thesis
  proof (cases x)
    case (Inl err)
    with Pair show ?thesis by simp
  next
    case (Inr r)
    obtain v b where r: "r = (v, b)" by (cases r)
    show ?thesis
    proof (cases b)
      case True
      with Pair Inr r show ?thesis by simp
    next
      case False
      with Pair Inr r have "v = Nil" by (auto dest: findSingleEntry_miss_Nil)
      with Pair Inr r False show ?thesis by simp
    qed
  qed
qed

text \<open>
  What \<^verbatim>\<open>Clear\<close> on a scoped container leaves: its own two maps are empty and the parent is
  as it was. A lookup by handle through the cleared container is the lookup in the parent,
  and \<^verbatim>\<open>Resolve\<close> through it is \<^verbatim>\<open>findSingleEntry\<close> on the parent, the scan that skips
  the parent's type index. Where every entry of the parent has a declared type and one of
  them is the only exact match, that entry is resolved.
\<close>

lemma Clear_keeps_parent_resolvable:
  assumes "parent c = Some p"
  shows "registry (Clear c) = [] \<and> typeRegistry (Clear c) = Map.empty \<and>
     parent (Clear c) = Some p \<and>
     getEntry (Clear c) h = getEntry p h \<and>
     Get s (Clear c) h = Get s p h \<and>
     Resolve impl s (Clear c) T = findSingleEntry impl s p T \<and>
     (h \<noteq> NilHandle \<and> map_of (registry p) h = Some e \<longrightarrow>
        Get s (Clear c) h = resolve s e) \<and>
     (typed (entries s) (registry p) \<and> exactMatches impl (entries s) T (registry p) = [e] \<longrightarrow>
        Resolve impl s (Clear c) T = found (resolve s e))"
proof -
  have ge: "getEntry (Clear c) h = getEntry p h" for h
    using assms by (simp add: Clear_def)
  have get: "Get s (Clear c) h = Get s p h" for h
    by (simp add: Get_def ge)
  have cl: "Clear c = Container [] Map.empty (Some p)"
    using assms by (simp add: Clear_def)
  have res: "Resolve impl s (Clear c) T = findSingleEntry impl s p T" for T
    unfolding cl by (simp add: Resolve_def findSingleEntry_empty_child del: findSingleEntry.simps)
  have byType: "Resolve impl s (Clear c) T = found (resolve s e)"
    if "typed (entries s) (registry p)" "exactMatches impl (entries s) T (registry p) = [e]"
    using that findSingleEntry_exact [of s "registry p" impl T e "typeRegistry p" "parent p"]
    by (simp add: res)
  show ?thesis
    using assms ge get res byType by (simp add: Clear_def Get_local)
qed

text \<open>
  Claim C7. \<^verbatim>\<open>Resolve\<close> for a non-pointer type \<open>T\<close> reaches the coercion of a similar
  candidate \<open>e\<close>: nothing is indexed under \<open>T\<close>, the scan ends with no exact match and the
  similar match \<open>e\<close>, and the parent chain (if there is one) misses. If \<open>e\<close> resolves to the
  nil pointer of type \<open>*T\<close>, the coercion returns \<^verbatim>\<open>(nil, false)\<close> and so does
  \<^verbatim>\<open>Resolve\<close>: a miss, not a panic.
\<close>

theorem nil_pointer_candidate_is_a_miss:
  assumes "typeIndex c T = []"
    "scanRegistry impl (entries s) T (registry c) None None = Inr (None, Some e)"
    "(parent c = None \<and> s' = s) \<or>
     (\<exists>p v. parent c = Some p \<and> findSingleEntry impl s p T = (Inr (v, False), s'))"
    "resolve s' e = (Inr (Pointer T None), s'')" "Kind T \<noteq> Ptr"
  shows "resolveAndConvert s' T e True = (Inr (Nil, False), s'') \<and>
     Resolve impl s c T = (Inr (Nil, False), s'')"
proof -
  have T: "TPtr T \<noteq> T" by (induction T) auto
  have conv: "resolveAndConvert s' T e True = (Inr (Nil, False), s'')"
    using assms(4,5) T by (simp add: resolveAndConvert_def ValueOf_def)
  obtain reg treg par where c: "c = Container reg treg par" by (cases c)
  have "findSingleEntry impl s c T = (Inr (Nil, False), s'')"
    using assms(2,3) conv by (auto simp: c)
  then show ?thesis
    using conv assms(1) by (simp add: Resolve_index_miss)
qed

lemma TPtr_neq: "TPtr T \<noteq> T"
  by (induction T) auto

lemma AssignableTo_refl: "AssignableTo impl T T"
  by (simp add: AssignableTo_def directlyAssignable_def)

lemma resolveAndConvert_value_to_pointer:
  assumes "resolve s e = (Inr v, s')" "TypeOf v = Some D" "Kind D \<noteq> Ptr"
  shows "resolveAndConvert s (TPtr D) e True =
     (Inr (Pointer D (Some (nextSlot (mem s'))), True),
      s'\<lparr>mem := (mem s')\<lparr>slots := (slots (mem s'))(nextSlot (mem s') := v),
                          nextSlot := Suc (nextSlot (mem s'))\<rparr>\<rparr>)"
  using assms TPtr_neq [of D]
  by (auto simp: resolveAndConvert_def ValueOf_def CanAddr_def newSlot_def)

text \<open>
  Injection by coercion where every entry has a declared type: a root container holds a
  bare value \<open>v\<close> of a non-pointer type \<open>D\<close>, nothing is indexed under \<open>*D\<close>, no entry is an
  exact match for \<open>*D\<close>, and the first similar match of a scan is the value entry \<open>e\<close> that
  stores \<open>v\<close>. \<^verbatim>\<open>Inject\<close> on a pointer to a struct whose one field is exported and has
  type \<open>*D\<close> succeeds. The value that \<^verbatim>\<open>reflect.ValueOf\<close> returns is not addressable, so
  the coercion copies \<open>v\<close> into a new slot, and the field holds the pointer to that slot.
\<close>

lemma Inject_pointer_field_from_bare_value:
  assumes "parent c = None" "typeIndex c (TPtr D) = []"
    "typed (entries s) (registry c)"
    "exactMatches impl (entries s) (TPtr D) (registry c) = []"
    "similarMatches impl (entries s) (TPtr D) (registry c) = e # others"
    "factory (entries s e) = None" "stored (entries s e) = v" "TypeOf v = Some D" "Kind D \<noteq> Ptr"
    "slots (mem s) a = StructV st [old]" "a < nextSlot (mem s)"
  shows "Inject impl s c (Pointer (TStruct n [(fname, True, TPtr D)]) (Some a)) =
     (Inr (),
      s\<lparr>mem := (mem s)\<lparr>slots := (slots (mem s))
                          (nextSlot (mem s) := v,
                           a := StructV st [Pointer D (Some (nextSlot (mem s)))]),
                        nextSlot := Suc (nextSlot (mem s))\<rparr>\<rparr>)"
proof -
  obtain reg treg where c: "c = Container reg treg None"
    using assms(1) by (cases c) auto
  have r: "resolve s e = (Inr v, s)"
    using assms(6,7) by (simp add: resolve_value)
  let ?s1 = "s\<lparr>mem := (mem s)\<lparr>slots := (slots (mem s))(nextSlot (mem s) := v),
                          nextSlot := Suc (nextSlot (mem s))\<rparr>\<rparr>"
  have conv: "resolveAndConvert s (TPtr D) e True = (Inr (Pointer D (Some (nextSlot (mem s))), True), ?s1)"
    by (rule resolveAndConvert_value_to_pointer [OF r assms(8,9)])
  have fs: "findSingleEntry impl s c (TPtr D) = (Inr (Pointer D (Some (nextSlot (mem s))), True), ?s1)"
    using assms(3,4,5) conv
    by (simp add: c findSingleEntry_no_exact del: findSingleEntry.simps)
  have res: "Resolve impl s c (TPtr D) = (Inr (Pointer D (Some (nextSlot (mem s))), True), ?s1)"
    using assms(2) fs by (simp add: Resolve_index_miss)
  have set: "setField impl ?s1 a 0 (TPtr D) (Pointer D (Some (nextSlot (mem s)))) =
     Inr (?s1\<lparr>mem := (mem ?s1)\<lparr>slots := (slots (mem ?s1))
                 (a := StructV st [Pointer D (Some (nextSlot (mem s)))])\<rparr>\<rparr>)"
    using assms(10,11) by (simp add: setField_def AssignableTo_refl)
  show ?thesis
    by (simp add: Inject_def res set)
qed

section \<open>Registration and tokens\<close>

lemma map_of_update:
  "map_of (AList.update k v al) k' = (if k' = k then Some v else map_of al k')"
  by (simp add: update_conv')

text \<open>
  Claim C8. \<^verbatim>\<open>Provide\<close> of the nil interface (the value without a runtime type) panics and
  leaves the container and the state as they were. Of any other value \<open>v\<close>, with runtime
  type \<open>typ\<close>, it succeeds: the registry maps a new \<^verbatim>\<open>*tokenKey\<close>, whose key is made from
  the name of \<open>typ\<close>, to a new entry; that entry stores \<open>v\<close>, has no factory, is a Singleton
  with declared type \<open>typ\<close> and resolves to \<open>v\<close>; it is appended to the type index of
  \<open>typ\<close>, and nothing else changes. A nil pointer of a pointer type has a runtime type and
  is registered like any other value.
\<close>

theorem Provide_rejects_nil_registers_value:
  "(TypeOf v = None \<longrightarrow> Provide R s c v = (Inl ProvideNil, c, s)) \<and>
   (TypeOf v = Some typ \<longrightarrow>
      (\<exists>c' s'. Provide R s c v = (Inr (), c', s') \<and>
         map_of (registry c') (TokenKeyPtr (nextToken s)) = Some (nextEntry s) \<and>
         tokenKey s' (TokenKeyPtr (nextToken s)) = Some (''__provided__'' @ tyString R typ) \<and>
         entries s' (nextEntry s) =
           \<lparr>stored = v, factory = None, depType = Some typ, lifecycle = Singleton, once = False\<rparr> \<and>
         resolve s' (nextEntry s) = (Inr v, s') \<and>
         typeIndex c' typ = typeIndex c typ @ [nextEntry s] \<and>
         (\<forall>t. t \<noteq> typ \<longrightarrow> typeRegistry c' t = typeRegistry c t) \<and>
         (\<forall>h. h \<noteq> TokenKeyPtr (nextToken s) \<longrightarrow> map_of (registry c') h = map_of (registry c) h) \<and>
         (\<forall>e. e \<noteq> nextEntry s \<longrightarrow> entries s' e = entries s e) \<and>
         parent c' = parent c))"
  by (simp add: Provide_def allocToken_def allocEntry_def store_def map_of_update typeIndex_def
      resolve_def)


lemma NewToken_result:
  assumes "NewToken R s T name = (Inr t, s')"
  shows "t = TokenPtr T (Some (nextToken s)) \<and>
     s' = s\<lparr>tokens := (tokens s)
              (nextToken s :=
                 (if 0 < length name \<and> name ! 0 \<noteq> [] then name ! 0
                  else case TypeOf (zero T) of None \<Rightarrow> [] | Some typ \<Rightarrow> tokenKeyOf R typ)),
            nextToken := Suc (nextToken s)\<rparr>"
  using assms
  by (auto simp: NewToken_def allocToken_def split: if_splits option.splits)

lemma map_of_fresh:
  "list_all (\<lambda>p. case fst p of TokenPtr T (Some a) \<Rightarrow> a < n | TokenKeyPtr a \<Rightarrow> a < n | _ \<Rightarrow> True) reg
   \<Longrightarrow> n \<le> a \<Longrightarrow> map_of reg (TokenPtr T (Some a)) = None"
  by (induction reg) (auto split: handle.splits option.splits)

lemma getEntry_fresh:
  "handlesBelow n c \<Longrightarrow> n \<le> a \<Longrightarrow> getEntry c (TokenPtr T (Some a)) = None"
proof (induction c)
  case (Container reg treg par)
  then show ?case
    by (cases par) (auto simp: map_of_fresh)
qed

lemma getEntry_store:
  "getEntry (store c k typ e) h = (if h = k then Some e else getEntry c h)"
  by (cases c) (simp add: store_def map_of_update)

text \<open>
  Claim C10. Two calls of \<^verbatim>\<open>NewToken[T]\<close> with the same name return the tokens \<open>t1\<close> and
  \<open>t2\<close>; the container \<open>c\<close> was built before, so each key of \<open>c\<close> and of its ancestors was
  allocated before the two tokens. An entry for the value \<open>v\<close> is then registered under
  \<open>t1\<close>. The two tokens hold the same key string and are different registry keys:
  \<^verbatim>\<open>Get\<close> with \<open>t1\<close> returns \<open>v\<close>, \<^verbatim>\<open>Get\<close> with \<open>t2\<close> panics with dependency not found,
  and \<^verbatim>\<open>Find\<close> with \<open>t2\<close> returns the zero value and false.
\<close>

theorem tokens_are_compared_by_identity:
  assumes "NewToken R s T name = (Inr t1, s1)" "NewToken R s1 T name = (Inr t2, s2)"
    "handlesBelow (nextToken s) c" "t1 = TokenPtr T a1" "t2 = TokenPtr T a2"
    "Register s2 c [Bind a1 T v] = (c', s3)"
  shows "t1 \<noteq> t2 \<and> tokenKey s3 t1 = tokenKey s3 t2 \<and> tokenKey s3 t1 \<noteq> None \<and>
     Get s3 c' t1 = (Inr v, s3) \<and>
     Get s3 c' t2 = (Inl (DependencyNotFound t2), s3) \<and>
     Find impl s3 c' T a2 = (Inr (zero T, False), s3) \<and>
     (typeAssert impl T v \<longrightarrow> Find impl s3 c' T a1 = (Inr (v, True), s3))"
proof -
  define key where "key =
     (if 0 < length name \<and> name ! 0 \<noteq> [] then name ! 0
      else case TypeOf (zero T) of None \<Rightarrow> [] | Some typ \<Rightarrow> tokenKeyOf R typ)"
  have k1: "t1 = TokenPtr T (Some (nextToken s))"
    "s1 = s\<lparr>tokens := (tokens s)(nextToken s := key), nextToken := Suc (nextToken s)\<rparr>"
    using NewToken_result [OF assms(1)] by (simp_all add: key_def)
  have k2: "t2 = TokenPtr T (Some (nextToken s1))"
    "s2 = s1\<lparr>tokens := (tokens s1)(nextToken s1 := key), nextToken := Suc (nextToken s1)\<rparr>"
    using NewToken_result [OF assms(2)] by (simp_all add: key_def)
  have a1: "a1 = Some (nextToken s)" using k1(1) assms(4) by simp
  have a2: "a2 = Some (Suc (nextToken s))" using k2(1) assms(5) k1(2) by simp
  have reg: "c' = store c t1 (TypeOf (zero T)) (nextEntry s2)"
    "s3 = s2\<lparr>entries := (entries s2)(nextEntry s2 :=
              (case TypeOf (zero T) of
                 None \<Rightarrow> \<lparr>stored = v, factory = None, depType = None,
                           lifecycle = Singleton, once = False\<rparr>
               | Some t \<Rightarrow> \<lparr>stored = v, factory = None, depType = Some t,
                             lifecycle = Singleton, once = False\<rparr>)),
            nextEntry := Suc (nextEntry s2)\<rparr>"
    using assms(6,4)
    by (auto simp: registerTo_def Bind_def allocEntry_def Let_def split: option.splits)
  have miss: "getEntry c t2 = None"
    using getEntry_fresh [OF assms(3), of "Suc (nextToken s)" T] a2 assms(5) by simp
  have ne: "t1 \<noteq> t2" using assms(4,5) a1 a2 by simp
  have g1: "getEntry c' t1 = Some (nextEntry s2)" by (simp add: reg(1) getEntry_store)
  have g2: "getEntry c' t2 = None" using ne miss by (simp add: reg(1) getEntry_store)
  have r: "resolve s3 (nextEntry s2) = (Inr v, s3)"
    by (cases "TypeOf (zero T)") (simp_all add: reg(2) resolve_def)
  have keys: "tokenKey s3 t1 = Some key" "tokenKey s3 t2 = Some key"
    using assms(4,5) a1 a2 by (simp_all add: reg(2) k2(2) k1(2))
  show ?thesis
    using ne keys g1 g2 r assms(4,5)
    by (simp add: Get_def Find_def)
qed

section \<open>The two maps of a container agree\<close>

lemma keepsTypes_refl [simp]: "keepsTypes s s"
  by (simp add: keepsTypes_def)































text \<open>
  A scan that meets an entry without a declared type panics, whatever is asked for; where every
  entry has one, \<^verbatim>\<open>Resolve\<close> goes through its five cases in this order.
\<close>

lemma Resolve_untyped:
  assumes "typeIndex c T = []" "(h, e) \<in> set (registry c)" "depType (entries s e) = None"
  shows "\<exists>err. Resolve impl s c T = (Inl err, s)"
proof -
  obtain reg treg par where c: "c = Container reg treg par" by (cases c)
  have "(h, e) \<in> set reg" using assms(2) by (simp add: c)
  from findSingleEntry_untyped [OF this assms(3), of impl treg par T]
  obtain err where "findSingleEntry impl s c T = (Inl err, s)" unfolding c by blast
  then show ?thesis by (simp add: Resolve_index_miss [OF assms(1)])
qed

lemma Resolve_search_order:
  assumes "typed (entries s) (registry c)"
  shows "(typeRegistry c T = Some [e] \<longrightarrow> Resolve impl s c T = found (resolve s e)) \<and>
     (typeIndex c T = [] \<and> exactMatches impl (entries s) T (registry c) = [e] \<longrightarrow>
        Resolve impl s c T = found (resolve s e)) \<and>
     (typeIndex c T = [] \<and> exactMatches impl (entries s) T (registry c) = [] \<and>
      parent c = Some p \<and> findSingleEntry impl s p T = (Inr (v, True), s') \<longrightarrow>
        Resolve impl s c T = (Inr (v, True), s')) \<and>
     (typeIndex c T = [] \<and> exactMatches impl (entries s) T (registry c) = [] \<and>
      parent c = Some p \<and> findSingleEntry impl s p T = (Inr (v, False), s') \<and>
      similarMatches impl (entries s) T (registry c) = e # others \<longrightarrow>
        Resolve impl s c T = resolveAndConvert s' T e True) \<and>
     (typeIndex c T = [] \<and> exactMatches impl (entries s) T (registry c) = [] \<and>
      parent c = Some p \<and> findSingleEntry impl s p T = (Inr (v, False), s') \<and>
      similarMatches impl (entries s) T (registry c) = [] \<longrightarrow>
        Resolve impl s c T = (Inr (Nil, False), s'))"
proof -
  obtain reg treg par where c: "c = Container reg treg par" by (cases c)
  have t: "typed (entries s) reg" using assms by (simp add: c)
  show ?thesis
    using findSingleEntry_exact [OF t, of impl T e treg par]
      findSingleEntry_no_exact [OF t, of impl T treg par]
    by (auto simp: c Resolve_index_one Resolve_index_miss simp del: findSingleEntry.simps)
qed

section \<open>The example programs, run\<close>

lemmas ops_defs = NewToken_def allocToken_def tokenKeyOf_def Provide_def allocEntry_def store_def
  registerTo_def Bind_def New_def NewScoped_def typeIndex_def testNames_def testState_def

lemma twoTokens_eval:
  "twoTokens = testState\<lparr>tokens := (\<lambda>a. [])(0 := ''service1'', 1 := ''service2''), nextToken := 2\<rparr>"
  by (simp add: twoTokens_def ops_defs)

lemma twoServices_eval:
  "twoServices =
     (Container [(TokenPtr (TPtr Service) (Some 0), 0), (TokenPtr (TPtr Service) (Some 1), 1)]
        (Map.empty(TPtr Service \<mapsto> [0, 1])) None,
      twoTokens\<lparr>entries := (entries twoTokens)
          (0 := \<lparr>stored = Pointer Service (Some 0), factory = None, depType = Some (TPtr Service),
                 lifecycle = Singleton, once = False\<rparr>,
           1 := \<lparr>stored = Pointer Service (Some 1), factory = None, depType = Some (TPtr Service),
                 lifecycle = Singleton, once = False\<rparr>),
        nextEntry := 2\<rparr>)"
  by (simp add: twoServices_def twoTokens_eval ops_defs)

text \<open>The two services: ambiguous by type, each found by its token.\<close>

theorem ambiguous_by_type_resolvable_by_handle_witness:
  "Resolve noMethods (snd twoServices) (fst twoServices) (TPtr Service) =
     (Inl (MultipleCandidates (TPtr Service) 2), snd twoServices) \<and>
   Get (snd twoServices) (fst twoServices) (TokenPtr (TPtr Service) (Some 0)) =
     (Inr (Pointer Service (Some 0)), snd twoServices) \<and>
   Get (snd twoServices) (fst twoServices) (TokenPtr (TPtr Service) (Some 1)) =
     (Inr (Pointer Service (Some 1)), snd twoServices)"
  using ambiguous_by_type_resolvable_by_handle
    [of "snd twoServices" 0 "TPtr Service" 1 "fst twoServices" "[0, 1]"
        "TokenPtr (TPtr Service) (Some 0)" "TokenPtr (TPtr Service) (Some 1)" noMethods]
  by (simp add: twoServices_eval resolve_def)

lemma parentWithService_eval:
  "parentWithService =
     (Container [(TokenKeyPtr 0, 0)] (Map.empty(TPtr Service \<mapsto> [0])) None,
      testState\<lparr>entries := (entries testState)
          (0 := \<lparr>stored = Pointer Service (Some 0), factory = None, depType = Some (TPtr Service),
                 lifecycle = Singleton, once = False\<rparr>),
        nextEntry := 1, tokens := (\<lambda>a. [])(0 := ''__provided__*dshot_test.Service''),
        nextToken := 1\<rparr>)"
  by (simp add: parentWithService_def ops_defs Service_def)

lemma scopedWithDatabase_eval:
  "scopedWithDatabase =
     (Container [(TokenKeyPtr 1, 1)] (Map.empty(Database \<mapsto> [1])) (Some (fst parentWithService)),
      (snd parentWithService)\<lparr>entries := (entries (snd parentWithService))
          (1 := \<lparr>stored = StructV Database [Basic (TBasic ''string'') 3], factory = None,
                 depType = Some Database, lifecycle = Singleton, once = False\<rparr>),
        nextEntry := 2,
        tokens := (tokens (snd parentWithService))(1 := ''__provided__dshot_test.Database''),
        nextToken := 2\<rparr>)"
  by (simp add: scopedWithDatabase_def parentWithService_eval ops_defs Database_def)

lemma nilDatabase_eval:
  "nilDatabase =
     (Container [(TokenPtr (TPtr Database) (Some 0), 0)] (Map.empty(TPtr Database \<mapsto> [0])) None,
      testState\<lparr>entries := (entries testState)
          (0 := \<lparr>stored = Pointer Database None, factory = None, depType = Some (TPtr Database),
                 lifecycle = Singleton, once = False\<rparr>),
        nextEntry := 1, tokens := (\<lambda>a. [])(0 := ''db''), nextToken := 1\<rparr>)"
  by (simp add: nilDatabase_def ops_defs)

text \<open>Resolving \<^verbatim>\<open>Database\<close> from the nil \<^verbatim>\<open>*Database\<close> is a miss.\<close>

theorem nil_pointer_candidate_is_a_miss_witness:
  "Resolve noMethods (snd nilDatabase) (fst nilDatabase) Database =
     (Inr (Nil, False), snd nilDatabase)"
  using nil_pointer_candidate_is_a_miss
    [of "fst nilDatabase" Database noMethods "snd nilDatabase" 0 "snd nilDatabase" "snd nilDatabase"]
  by (simp add: nilDatabase_eval typeIndex_def Database_def isExactMatch_def AssignableTo_def directlyAssignable_def
      noMethods_def isSimilarType_def resolve_def)

lemma bareDatabase_eval:
  "bareDatabase =
     (Container [(TokenKeyPtr 0, 0)] (Map.empty(Database \<mapsto> [0])) None,
      testState\<lparr>entries := (entries testState)
          (0 := \<lparr>stored = StructV Database [Basic (TBasic ''string'') 3], factory = None,
                 depType = Some Database, lifecycle = Singleton, once = False\<rparr>),
        nextEntry := 1, tokens := (\<lambda>a. [])(0 := ''__provided__dshot_test.Database''),
        nextToken := 1\<rparr>)"
  by (simp add: bareDatabase_def ops_defs Database_def)

text \<open>Providing nil panics; providing a \<^verbatim>\<open>*Service\<close> registers and indexes it.\<close>

theorem Provide_rejects_nil_registers_value_witness:
  "Provide testNames testState New Nil = (Inl ProvideNil, New, testState) \<and>
   fst (Provide testNames testState New (Pointer Service (Some 0))) = Inr () \<and>
   map_of (registry (fst (snd (Provide testNames testState New (Pointer Service (Some 0))))))
     (TokenKeyPtr 0) = Some 0 \<and>
   typeIndex (fst (snd (Provide testNames testState New (Pointer Service (Some 0))))) (TPtr Service) = [0]"
  using Provide_rejects_nil_registers_value [of Nil testNames testState New "TPtr Service"]
    Provide_rejects_nil_registers_value
      [of "Pointer Service (Some 0)" testNames testState New "TPtr Service"]
  by (auto simp add: testState_def New_def typeIndex_def)
lemma twoTokens_first:
  "NewToken testNames testState (TPtr Service) [''service''] =
     (Inr (TokenPtr (TPtr Service) (Some 0)),
      testState\<lparr>tokens := (\<lambda>a. [])(0 := ''service''), nextToken := 1\<rparr>)"
  by (simp add: NewToken_def allocToken_def testState_def)

lemma twoTokens_second:
  "NewToken testNames (testState\<lparr>tokens := (\<lambda>a. [])(0 := ''service''), nextToken := 1\<rparr>)
     (TPtr Service) [''service''] =
     (Inr (TokenPtr (TPtr Service) (Some 1)),
      testState\<lparr>tokens := (\<lambda>a. [])(0 := ''service'', 1 := ''service''), nextToken := 2\<rparr>)"
  by (simp add: NewToken_def allocToken_def testState_def)

lemma sameName_eval:
  "sameName =
     (Container [(TokenPtr (TPtr Service) (Some 0), 0)] (Map.empty(TPtr Service \<mapsto> [0])) None,
      testState\<lparr>tokens := (\<lambda>a. [])(0 := ''service'', 1 := ''service''), nextToken := 2,
        entries := (entries testState)
          (0 := \<lparr>stored = Pointer Service (Some 0), factory = None, depType = Some (TPtr Service),
                 lifecycle = Singleton, once = False\<rparr>),
        nextEntry := 1\<rparr>)"
  by (simp add: sameName_def twoTokens_first twoTokens_second ops_defs)

text \<open>Two tokens named \<^verbatim>\<open>service\<close>: only the one that was bound is found.\<close>

theorem tokens_are_compared_by_identity_witness:
  "tokenKey (snd sameName) (TokenPtr (TPtr Service) (Some 0)) =
     tokenKey (snd sameName) (TokenPtr (TPtr Service) (Some 1)) \<and>
   Get (snd sameName) (fst sameName) (TokenPtr (TPtr Service) (Some 0)) =
     (Inr (Pointer Service (Some 0)), snd sameName) \<and>
   Get (snd sameName) (fst sameName) (TokenPtr (TPtr Service) (Some 1)) =
     (Inl (DependencyNotFound (TokenPtr (TPtr Service) (Some 1))), snd sameName) \<and>
   Find noMethods (snd sameName) (fst sameName) (TPtr Service) (Some 1) =
     (Inr (Pointer Service None, False), snd sameName)"
  using tokens_are_compared_by_identity
    [OF twoTokens_first twoTokens_second, of New "Some 0" "Some 1" "Pointer Service (Some 0)"
       "fst sameName" "snd sameName" noMethods]
  by (simp add: New_def sameName_eval ops_defs)
lemma loggerToken:
  "NewToken testNames testState Logger [''logger''] =
     (Inr (TokenPtr Logger (Some 0)),
      testState\<lparr>tokens := (\<lambda>a. [])(0 := ''logger''), nextToken := 1\<rparr>)"
  by (simp add: NewToken_def allocToken_def testState_def)

lemma loggerBound_eval:
  "loggerBound =
     (Container [(TokenPtr Logger (Some 0), 0)] Map.empty (Some New),
      testState\<lparr>tokens := (\<lambda>a. [])(0 := ''logger''), nextToken := 1,
        entries := (entries testState)
          (0 := \<lparr>stored = Pointer Service (Some 0), factory = None, depType = None,
                 lifecycle = Singleton, once = False\<rparr>),
        nextEntry := 1\<rparr>)"
  by (simp add: loggerBound_def loggerToken ops_defs Logger_def)



text \<open>
  Claim C1 at a failing input. The scoped container holds one entry, bound to a token of
  the interface type \<^verbatim>\<open>Logger\<close>; its parent is empty; nothing matches \<^verbatim>\<open>*Database\<close> in
  either. \<^verbatim>\<open>Resolve(*Database)\<close> does not report not-found: the scan calls a method on the
  nil \<^verbatim>\<open>depType\<close> of that entry and panics.
\<close>

theorem Resolve_panics_on_untyped_entry:
  "registry (fst loggerBound) = [(TokenPtr Logger (Some 0), 0)] \<and>
   typeRegistry (fst loggerBound) = Map.empty \<and>
   parent (fst loggerBound) = Some New \<and>
   depType (entries (snd loggerBound) 0) = None \<and>
   Resolve serviceLogs (snd loggerBound) (fst loggerBound) (TPtr Database) =
     (Inl RuntimePanic, snd loggerBound)"
  by (simp add: loggerBound_eval Resolve_def isExactMatch_def New_def)




lemma databaseAndLogger_eval:
  "databaseAndLogger =
     (Container [(TokenKeyPtr 1, 0), (TokenPtr Logger (Some 0), 1)]
        (Map.empty(Database \<mapsto> [0])) None,
      testState\<lparr>tokens := (\<lambda>a. [])(0 := ''logger'', 1 := ''__provided__dshot_test.Database''),
        nextToken := 2,
        entries := (entries testState)
          (0 := \<lparr>stored = StructV Database [Basic (TBasic ''string'') 3], factory = None,
                 depType = Some Database, lifecycle = Singleton, once = False\<rparr>,
           1 := \<lparr>stored = Pointer Service (Some 0), factory = None, depType = None,
                 lifecycle = Singleton, once = False\<rparr>),
        nextEntry := 2\<rparr>)"
  by (simp add: databaseAndLogger_def loggerToken ops_defs Logger_def Database_def)

text \<open>
  Claim C6 at a failing input. With only the bare \<^verbatim>\<open>Database\<close> value registered,
  \<^verbatim>\<open>Inject\<close> on a \<^verbatim>\<open>*Repository\<close> succeeds. With a token of the interface type
  \<^verbatim>\<open>Logger\<close> bound in the same container it panics: resolving the field's type
  \<^verbatim>\<open>*Database\<close> scans the registry and meets the entry without a declared type.
\<close>

theorem Inject_panics_beside_untyped_entry:
  "fst (Inject serviceLogs (snd bareDatabase) (fst bareDatabase) (Pointer Repository (Some 2))) = Inr () \<and>
   Inject serviceLogs (snd databaseAndLogger) (fst databaseAndLogger) (Pointer Repository (Some 2)) =
     (Inl RuntimePanic, snd databaseAndLogger)"
  by (simp add: bareDatabase_eval databaseAndLogger_eval Inject_def Repository_def Database_def
      Resolve_def isExactMatch_def AssignableTo_def directlyAssignable_def serviceLogs_def Logger_def Service_def
      isSimilarType_def resolveAndConvert_def resolve_def ValueOf_def CanAddr_def newSlot_def
      setField_def testState_def testMemory_def)

end
